theory Spec2Isabelle
  imports Complex_Main "HOL-Library.Word" "HOL-Library.Sublist"
begin

section \<open>The OpenGL 3.3 rendering path of simple2d (src/gl3.c)\<close>

text \<open>
  The module is a sequence of calls into the OpenGL driver, two static program handles
  and the shared projection matrix. The embedding keeps the three variables in a state
  record and records every call the module makes, with the value the driver returned,
  in a trace. What the driver returns is not decided by this module: every function
  that reads a value back from the driver takes the returned values as an
  argument, a record with one field for each call that returns one. The file has no
  loop, so each call is made at most once in a run of a function, and a theorem about
  every such record is a theorem about every behaviour of the driver.
\<close>

subsection \<open>C types\<close>

type_synonym cint = "32 word"
type_synonym GLuint = "32 word"
type_synonym GLint = "32 word"
type_synonym GLsizei = "32 word"
type_synonym GLboolean = "8 word"

text \<open>
  \<^verbatim>\<open>GLfloat\<close> is a type parameter \<open>'f\<close> of the syntactic sort
  \<open>{zero, one, uminus, inverse}\<close>: it has the constants written \<open>0.f\<close> and \<open>1.f\<close>,
  a negation and a division, and no law about them is assumed (IEEE arithmetic has few).
  The conversion \<^verbatim>\<open>(GLfloat)i\<close> of an \<^verbatim>\<open>int\<close> is the parameter \<open>flt\<close> of every
  function that converts; the literal \<^verbatim>\<open>2.0f\<close> is \<open>flt 2\<close>.

  The macros of the OpenGL headers are kept as names. \<^verbatim>\<open>GL_FALSE\<close> and
  \<^verbatim>\<open>GL_TRUE\<close>, which the module also returns as \<^verbatim>\<open>int\<close>, are 0 and 1.
\<close>

datatype GLenum =
    GL_BLEND | GL_SRC_ALPHA | GL_ONE_MINUS_SRC_ALPHA
  | GL_ARRAY_BUFFER | GL_ELEMENT_ARRAY_BUFFER
  | GL_VERTEX_SHADER | GL_FRAGMENT_SHADER
  | GL_LINK_STATUS | GL_FLOAT | GL_UNSIGNED_INT
  | GL_STATIC_DRAW | GL_TRIANGLES | GL_TEXTURE_2D

datatype S2D_level = S2D_INFO | S2D_WARN | S2D_ERROR

definition GL_FALSE :: "'a::len word" where
  "GL_FALSE = 0"

definition GL_TRUE :: "'a::len word" where
  "GL_TRUE = 1"

text \<open>The data handed to \<^verbatim>\<open>glBufferData\<close>: an array of floats or of unsigned ints.\<close>

datatype 'f buffer_data = Floats "'f list" | UInts "GLuint list"

subsection \<open>The calls the module makes\<close>

text \<open>
  One constructor for each external function the file calls, with the arguments in the
  order of the C prototype. Where the function returns a value (or writes one through
  a pointer), the value is the last argument of the constructor. Sizes and offsets are
  in bytes.
\<close>

datatype 'f gl_event =
    glViewport GLint GLint GLsizei GLsizei
  | glUseProgram GLuint
  | glGetUniformLocation GLuint string GLint
  | glUniformMatrix4fv GLint GLsizei GLboolean "'f list"
  | glEnable GLenum
  | glBlendFunc GLenum GLenum
  | glGenVertexArrays GLsizei GLuint
  | glBindVertexArray GLuint
  | glGenBuffers GLsizei GLuint
  | glBindBuffer GLenum GLuint
  | S2D_GL_LoadShader GLenum string string GLuint
  | glCreateProgram GLuint
  | S2D_GL_PrintError string
  | glAttachShader GLuint GLuint
  | glBindFragDataLocation GLuint GLuint string
  | glLinkProgram GLuint
  | glGetProgramiv GLuint GLenum GLint
  | S2D_Log string S2D_level
  | glGetAttribLocation GLuint string GLint
  | glVertexAttribPointer GLuint GLint GLenum GLboolean GLsizei nat
  | glEnableVertexAttribArray GLuint
  | glDeleteShader GLuint
  | glBufferData GLenum nat "'f buffer_data" GLenum
  | glDrawArrays GLenum GLint GLsizei
  | glBindTexture GLenum GLuint
  | glDrawElements GLenum GLsizei GLenum nat

subsection \<open>State\<close>

text \<open>
  \<^verbatim>\<open>shaderProgram\<close> and \<^verbatim>\<open>texShaderProgram\<close> are the file's statics;
  \<^verbatim>\<open>S2D_GL_orthoMatrix\<close> is the array of 16 floats the file shares with the rest of
  the library (declared in the header, defined elsewhere).
\<close>

record 'f gl3_state =
  shaderProgram :: GLuint
  texShaderProgram :: GLuint
  S2D_GL_orthoMatrix :: "'f list"
  trace :: "'f gl_event list"

definition emit :: "'f gl_event \<Rightarrow> 'f gl3_state \<Rightarrow> 'f gl3_state" where
  "emit e s = s\<lparr>trace := trace s @ [e]\<rparr>"

text \<open>\<^verbatim>\<open>static GLuint elements[] = { 0, 1, 2, 2, 3, 0 };\<close>, never written.\<close>

definition elements :: "GLuint list" where
  "elements = [0, 1, 2, 2, 3, 0]"

definition sizeof_GLfloat :: nat where
  "sizeof_GLfloat = 4"

definition sizeof_GLuint :: nat where
  "sizeof_GLuint = 4"

subsection \<open>gl3_check_linked\<close>

text \<open>\<open>linked\<close> is the value \<^verbatim>\<open>glGetProgramiv\<close> stores in the local of that name.\<close>

definition gl3_check_linked :: "GLint \<Rightarrow> GLuint \<Rightarrow> 'f gl3_state \<Rightarrow> cint \<times> 'f gl3_state" where
  "gl3_check_linked linked program s0 =
     (let s1 = emit (glGetProgramiv program GL_LINK_STATUS linked) s0
      in if linked = 0
         then (GL_FALSE, emit (S2D_Log ''GL3 shader was not linked'' S2D_ERROR) s1)
         else (GL_TRUE, s1))"

subsection \<open>gl3_set_view\<close>

text \<open>The two uniform locations the driver returns.\<close>

record set_view_ret =
  ret_mMvpLocation :: GLuint
  ret_texmMvpLocation :: GLuint

definition gl3_set_view ::
  "(cint \<Rightarrow> 'f) \<Rightarrow> set_view_ret \<Rightarrow> cint \<Rightarrow> cint \<Rightarrow> cint \<Rightarrow> cint \<Rightarrow>
   ('f::{zero, one, uminus, inverse}) gl3_state \<Rightarrow> 'f gl3_state" where
  "gl3_set_view flt ret window_width window_height s2d_viewport_width s2d_viewport_height s0 =
     (let s1 = emit (glViewport 0 0 window_width window_height) s0;
          s2 = s1\<lparr>S2D_GL_orthoMatrix :=
                 (S2D_GL_orthoMatrix s1)[0 := flt 2 / flt s2d_viewport_width]\<rparr>;
          s3 = s2\<lparr>S2D_GL_orthoMatrix :=
                 (S2D_GL_orthoMatrix s2)[5 := (- flt 2) / flt s2d_viewport_height]\<rparr>;
          s4 = emit (glUseProgram (shaderProgram s3)) s3;
          mMvpLocation = ret_mMvpLocation ret;
          s5 = emit (glGetUniformLocation (shaderProgram s4) ''u_mvpMatrix'' mMvpLocation) s4;
          s6 = emit (glUniformMatrix4fv mMvpLocation 1 GL_FALSE (S2D_GL_orthoMatrix s5)) s5;
          s7 = emit (glUseProgram (texShaderProgram s6)) s6;
          texmMvpLocation = ret_texmMvpLocation ret;
          s8 = emit (glGetUniformLocation (texShaderProgram s7) ''u_mvpMatrix''
                       texmMvpLocation) s7
      in emit (glUniformMatrix4fv texmMvpLocation 1 GL_FALSE (S2D_GL_orthoMatrix s8)) s8)"

subsection \<open>gl3_init\<close>

text \<open>The three GLSL sources, local character arrays of \<^verbatim>\<open>gl3_init\<close>.\<close>

definition vertexSource :: string where
  "vertexSource =
     ''#version 150 core'' @ [CHR 0x0A] @
     ''uniform mat4 u_mvpMatrix;'' @
     ''in vec2 position;'' @
     ''in vec4 color;'' @
     ''in vec2 texcoord;'' @
     ''out vec4 Color;'' @
     ''out vec2 Texcoord;'' @
     ''void main() {'' @
     ''  Color = color;'' @
     ''  Texcoord = texcoord;'' @
     ''  gl_Position = u_mvpMatrix * vec4(position, 0.0, 1.0);'' @
     ''}''"

definition fragmentSource :: string where
  "fragmentSource =
     ''#version 150 core'' @ [CHR 0x0A] @
     ''in vec4 Color;'' @
     ''out vec4 outColor;'' @
     ''void main() {'' @
     ''  outColor = Color;'' @
     ''}''"

definition texFragmentSource :: string where
  "texFragmentSource =
     ''#version 150 core'' @ [CHR 0x0A] @
     ''in vec4 Color;'' @
     ''in vec2 Texcoord;'' @
     ''out vec4 outColor;'' @
     ''uniform sampler2D tex;'' @
     ''void main() {'' @
     ''  outColor = texture(tex, Texcoord) * Color;'' @
     ''}''"

text \<open>
  The values the driver returns to \<^verbatim>\<open>gl3_init\<close>, named after the locals and statics
  that receive them (\<open>tex\<close> marks the second use of a local, for the texture program).
\<close>

record init_ret =
  ret_vao :: GLuint
  ret_vbo :: GLuint
  ret_ebo :: GLuint
  ret_vertexShader :: GLuint
  ret_fragmentShader :: GLuint
  ret_texFragmentShader :: GLuint
  ret_shaderProgram :: GLuint
  ret_linked :: GLint
  ret_posAttrib :: GLint
  ret_colAttrib :: GLint
  ret_texShaderProgram :: GLuint
  ret_texLinked :: GLint
  ret_texPosAttrib :: GLint
  ret_texColAttrib :: GLint
  ret_texAttrib :: GLint
  ret_set_view :: set_view_ret

text \<open>
  The function returns at three places: after each of the two \<^verbatim>\<open>glCreateProgram\<close>
  checks with \<^verbatim>\<open>GL_FALSE\<close>, and at the end with \<^verbatim>\<open>GL_TRUE\<close>. The handles returned
  by \<^verbatim>\<open>S2D_GL_LoadShader\<close> and the results of \<^verbatim>\<open>gl3_check_linked\<close> are not tested.
\<close>

definition gl3_init ::
  "(cint \<Rightarrow> 'f) \<Rightarrow> init_ret \<Rightarrow> cint \<Rightarrow> cint \<Rightarrow>
   ('f::{zero, one, uminus, inverse}) gl3_state \<Rightarrow> cint \<times> 'f gl3_state" where
  "gl3_init flt ret width height s0 =
     (let s1 = emit (glEnable GL_BLEND) s0;
          s2 = emit (glBlendFunc GL_SRC_ALPHA GL_ONE_MINUS_SRC_ALPHA) s1;
          vao = ret_vao ret;
          s3 = emit (glGenVertexArrays 1 vao) s2;
          s4 = emit (glBindVertexArray vao) s3;
          vbo = ret_vbo ret;
          s5 = emit (glGenBuffers 1 vbo) s4;
          s6 = emit (glBindBuffer GL_ARRAY_BUFFER vbo) s5;
          ebo = ret_ebo ret;
          s7 = emit (glGenBuffers 1 ebo) s6;
          s8 = emit (glBindBuffer GL_ELEMENT_ARRAY_BUFFER ebo) s7;
          vertexShader = ret_vertexShader ret;
          s9 = emit (S2D_GL_LoadShader GL_VERTEX_SHADER vertexSource ''GL3 Vertex''
                       vertexShader) s8;
          fragmentShader = ret_fragmentShader ret;
          s10 = emit (S2D_GL_LoadShader GL_FRAGMENT_SHADER fragmentSource ''GL3 Fragment''
                        fragmentShader) s9;
          texFragmentShader = ret_texFragmentShader ret;
          s11 = emit (S2D_GL_LoadShader GL_FRAGMENT_SHADER texFragmentSource
                        ''GL3 Texture Fragment'' texFragmentShader) s10;
          s12 = emit (glCreateProgram (ret_shaderProgram ret)) s11;
          s13 = s12\<lparr>shaderProgram := ret_shaderProgram ret\<rparr>
      in if shaderProgram s13 = 0
         then (GL_FALSE, emit (S2D_GL_PrintError ''Failed to create shader program'') s13)
         else
          (let s14 = emit (glAttachShader (shaderProgram s13) vertexShader) s13;
               s15 = emit (glAttachShader (shaderProgram s14) fragmentShader) s14;
               s16 = emit (glBindFragDataLocation (shaderProgram s15) 0 ''outColor'') s15;
               s17 = emit (glLinkProgram (shaderProgram s16)) s16;
               (_, s18) = gl3_check_linked (ret_linked ret) (shaderProgram s17) s17;
               posAttrib = ret_posAttrib ret;
               s19 = emit (glGetAttribLocation (shaderProgram s18) ''position'' posAttrib) s18;
               s20 = emit (glVertexAttribPointer posAttrib 2 GL_FLOAT GL_FALSE
                             (of_nat (8 * sizeof_GLfloat)) 0) s19;
               s21 = emit (glEnableVertexAttribArray posAttrib) s20;
               colAttrib = ret_colAttrib ret;
               s22 = emit (glGetAttribLocation (shaderProgram s21) ''color'' colAttrib) s21;
               s23 = emit (glVertexAttribPointer colAttrib 4 GL_FLOAT GL_FALSE
                             (of_nat (8 * sizeof_GLfloat)) (2 * sizeof_GLfloat)) s22;
               s24 = emit (glEnableVertexAttribArray colAttrib) s23;
               s25 = emit (glCreateProgram (ret_texShaderProgram ret)) s24;
               s26 = s25\<lparr>texShaderProgram := ret_texShaderProgram ret\<rparr>
           in if texShaderProgram s26 = 0
              then (GL_FALSE, emit (S2D_GL_PrintError ''Failed to create shader program'') s26)
              else
               (let s27 = emit (glAttachShader (texShaderProgram s26) vertexShader) s26;
                    s28 = emit (glAttachShader (texShaderProgram s27) texFragmentShader) s27;
                    s29 = emit (glBindFragDataLocation (texShaderProgram s28) 0 ''outColor'') s28;
                    s30 = emit (glLinkProgram (texShaderProgram s29)) s29;
                    (_, s31) = gl3_check_linked (ret_texLinked ret) (texShaderProgram s30) s30;
                    posAttrib = ret_texPosAttrib ret;
                    s32 = emit (glGetAttribLocation (texShaderProgram s31) ''position''
                                  posAttrib) s31;
                    s33 = emit (glVertexAttribPointer posAttrib 2 GL_FLOAT GL_FALSE
                                  (of_nat (8 * sizeof_GLfloat)) 0) s32;
                    s34 = emit (glEnableVertexAttribArray posAttrib) s33;
                    colAttrib = ret_texColAttrib ret;
                    s35 = emit (glGetAttribLocation (texShaderProgram s34) ''color''
                                  colAttrib) s34;
                    s36 = emit (glVertexAttribPointer colAttrib 4 GL_FLOAT GL_FALSE
                                  (of_nat (8 * sizeof_GLfloat)) (2 * sizeof_GLfloat)) s35;
                    s37 = emit (glEnableVertexAttribArray colAttrib) s36;
                    texAttrib = ret_texAttrib ret;
                    s38 = emit (glGetAttribLocation (texShaderProgram s37) ''texcoord''
                                  texAttrib) s37;
                    s39 = emit (glVertexAttribPointer texAttrib 2 GL_FLOAT GL_FALSE
                                  (of_nat (8 * sizeof_GLfloat)) (6 * sizeof_GLfloat)) s38;
                    s40 = emit (glEnableVertexAttribArray texAttrib) s39;
                    s41 = gl3_set_view flt (ret_set_view ret) width height width height s40;
                    s42 = emit (glDeleteShader vertexShader) s41;
                    s43 = emit (glDeleteShader fragmentShader) s42;
                    s44 = emit (glDeleteShader texFragmentShader) s43
                in (GL_TRUE, s44))))"

subsection \<open>Drawing\<close>

definition gl3_draw_triangle ::
  "'f \<Rightarrow> 'f \<Rightarrow> 'f \<Rightarrow> 'f \<Rightarrow> 'f \<Rightarrow> 'f \<Rightarrow>
   'f \<Rightarrow> 'f \<Rightarrow> 'f \<Rightarrow> 'f \<Rightarrow> 'f \<Rightarrow> 'f \<Rightarrow>
   'f \<Rightarrow> 'f \<Rightarrow> 'f \<Rightarrow> 'f \<Rightarrow> 'f \<Rightarrow> 'f \<Rightarrow>
   ('f::{zero, one, uminus, inverse}) gl3_state \<Rightarrow> 'f gl3_state" where
  "gl3_draw_triangle x1 y1 c1r c1g c1b c1a x2 y2 c2r c2g c2b c2a x3 y3 c3r c3g c3b c3a s0 =
     (let vertices =
            [ x1, y1, c1r, c1g, c1b, c1a, 0, 0,
              x2, y2, c2r, c2g, c2b, c2a, 0, 0,
              x3, y3, c3r, c3g, c3b, c3a, 0, 0 ];
          s1 = emit (glUseProgram (shaderProgram s0)) s0;
          s2 = emit (glBufferData GL_ARRAY_BUFFER (length vertices * sizeof_GLfloat)
                       (Floats vertices) GL_STATIC_DRAW) s1
      in emit (glDrawArrays GL_TRIANGLES 0 3) s2)"

text \<open>
  In \<^verbatim>\<open>gl3_draw_texture\<close> the sums \<^verbatim>\<open>x + w\<close> and \<^verbatim>\<open>y + h\<close> are computed on
  \<^verbatim>\<open>int\<close> and then converted (the model wraps where C leaves the overflow undefined).
\<close>

definition gl3_draw_texture ::
  "(cint \<Rightarrow> 'f) \<Rightarrow> cint \<Rightarrow> cint \<Rightarrow> cint \<Rightarrow> cint \<Rightarrow> 'f \<Rightarrow> 'f \<Rightarrow> 'f \<Rightarrow> 'f \<Rightarrow> GLuint \<Rightarrow>
   ('f::{zero, one, uminus, inverse}) gl3_state \<Rightarrow> 'f gl3_state" where
  "gl3_draw_texture flt x y w h r g b a texture_id s0 =
     (let vertices =
            [ flt x,       flt y,       r, g, b, a, 0, 0,
              flt (x + w), flt y,       r, g, b, a, 1, 0,
              flt (x + w), flt (y + h), r, g, b, a, 1, 1,
              flt x,       flt (y + h), r, g, b, a, 0, 1 ];
          s1 = emit (glUseProgram (texShaderProgram s0)) s0;
          s2 = emit (glBindTexture GL_TEXTURE_2D texture_id) s1;
          s3 = emit (glBufferData GL_ARRAY_BUFFER (length vertices * sizeof_GLfloat)
                       (Floats vertices) GL_STATIC_DRAW) s2;
          s4 = emit (glBufferData GL_ELEMENT_ARRAY_BUFFER (length elements * sizeof_GLuint)
                       (UInts elements) GL_STATIC_DRAW) s3
      in emit (glDrawElements GL_TRIANGLES 6 GL_UNSIGNED_INT 0) s4)"

text \<open>
  \<^verbatim>\<open>Image\<close>, \<^verbatim>\<open>Text\<close> and \<^verbatim>\<open>Color\<close> are structs of the library's header. The
  records have the fields this file reads, under a prefix (a field \<open>x\<close> would be a
  constant of that name); any other field of the structs lives in the records'
  extension, which the functions accept and never read.
\<close>

record Image =
  img_texture_id :: GLuint
  img_x :: cint
  img_y :: cint
  img_w :: cint
  img_h :: cint

record 'f Color =
  color_r :: 'f
  color_g :: 'f
  color_b :: 'f
  color_a :: 'f

record 'f Text =
  txt_texture_id :: GLuint
  txt_color :: "'f Color"
  txt_x :: cint
  txt_y :: cint
  txt_w :: cint
  txt_h :: cint

definition gl3_draw_image ::
  "(cint \<Rightarrow> 'f) \<Rightarrow> 'z Image_scheme \<Rightarrow>
   ('f::{zero, one, uminus, inverse}) gl3_state \<Rightarrow> 'f gl3_state" where
  "gl3_draw_image flt img s =
     gl3_draw_texture flt (img_x img) (img_y img) (img_w img) (img_h img)
       1 1 1 1
       (img_texture_id img) s"

definition gl3_draw_text ::
  "(cint \<Rightarrow> 'f) \<Rightarrow> ('f, 'z) Text_scheme \<Rightarrow>
   ('f::{zero, one, uminus, inverse}) gl3_state \<Rightarrow> 'f gl3_state" where
  "gl3_draw_text flt txt s =
     gl3_draw_texture flt (txt_x txt) (txt_y txt) (txt_w txt) (txt_h txt)
       (color_r (txt_color txt)) (color_g (txt_color txt))
       (color_b (txt_color txt)) (color_a (txt_color txt))
       (txt_texture_id txt) s"

subsection \<open>Reading a trace\<close>

text \<open>The calls a run has added to the trace it started from.\<close>

definition emitted :: "'f gl3_state \<Rightarrow> 'f gl3_state \<Rightarrow> 'f gl_event list" where
  "emitted s s' = drop (length (trace s)) (trace s')"



text \<open>
  The fields of the k-th vertex of an interleaved array, as the attribute pointers of
  \<^verbatim>\<open>gl3_init\<close> lay them out: 8 floats a vertex, the position at 0, the colour at 2,
  the texture coordinate at 6.
\<close>

definition vertex_position :: "'f list \<Rightarrow> nat \<Rightarrow> 'f \<times> 'f" where
  "vertex_position vs k = (vs ! (8 * k), vs ! (8 * k + 1))"

definition vertex_color :: "'f list \<Rightarrow> nat \<Rightarrow> 'f \<times> 'f \<times> 'f \<times> 'f" where
  "vertex_color vs k = (vs ! (8 * k + 2), vs ! (8 * k + 3), vs ! (8 * k + 4), vs ! (8 * k + 5))"

definition vertex_texcoord :: "'f list \<Rightarrow> nat \<Rightarrow> 'f \<times> 'f" where
  "vertex_texcoord vs k = (vs ! (8 * k + 6), vs ! (8 * k + 7))"

text \<open>
  Concrete runs use an idealised \<^verbatim>\<open>GLfloat\<close>, the reals with exact division, and two
  states: one before initialisation (no program, no call made yet) and one with two
  programs in place. Both hold a matrix of 16 entries.
\<close>

definition real_of_cint :: "cint \<Rightarrow> real" where
  "real_of_cint i = real_of_int (sint i)"

definition boot_state :: "real gl3_state" where
  "boot_state =
     \<lparr>shaderProgram = 0, texShaderProgram = 0,
      S2D_GL_orthoMatrix = [0, 0, 0, 0,  0, 0, 0, 0,  0, 0, 0, 0,  -1, 1, -1, 1],
      trace = []\<rparr>"

definition ready_state :: "real gl3_state" where
  "ready_state =
     \<lparr>shaderProgram = 3, texShaderProgram = 6,
      S2D_GL_orthoMatrix = [0, 0, 0, 0,  0, 0, 0, 0,  0, 0, 0, 0,  -1, 1, -1, 1],
      trace = []\<rparr>"

text \<open>
  Answers of a driver to \<^verbatim>\<open>gl3_init\<close>: one where every object is created and both
  programs link, and variants of it.
\<close>

definition good_ret :: init_ret where
  "good_ret =
     \<lparr>ret_vao = 1, ret_vbo = 1, ret_ebo = 2,
      ret_vertexShader = 1, ret_fragmentShader = 2, ret_texFragmentShader = 4,
      ret_shaderProgram = 3, ret_linked = 1, ret_posAttrib = 0, ret_colAttrib = 1,
      ret_texShaderProgram = 6, ret_texLinked = 1,
      ret_texPosAttrib = 0, ret_texColAttrib = 1, ret_texAttrib = 2,
      ret_set_view = \<lparr>ret_mMvpLocation = 0, ret_texmMvpLocation = 0\<rparr>\<rparr>"

section \<open>The functions as state transformers\<close>

text \<open>Each function in closed form: the state it returns and the calls it appends.\<close>

lemma trace_emit [simp]: "trace (emit e s) = trace s @ [e]"
  and shaderProgram_emit [simp]: "shaderProgram (emit e s) = shaderProgram s"
  and texShaderProgram_emit [simp]: "texShaderProgram (emit e s) = texShaderProgram s"
  and orthoMatrix_emit [simp]: "S2D_GL_orthoMatrix (emit e s) = S2D_GL_orthoMatrix s"
  by (simp_all add: emit_def)

lemma gl3_set_view_eq:
  "gl3_set_view flt ret ww wh vw vh s =
     s\<lparr>S2D_GL_orthoMatrix := (S2D_GL_orthoMatrix s)[0 := flt 2 / flt vw, 5 := (- flt 2) / flt vh],
       trace := trace s @
        [glViewport 0 0 ww wh,
         glUseProgram (shaderProgram s),
         glGetUniformLocation (shaderProgram s) ''u_mvpMatrix'' (ret_mMvpLocation ret),
         glUniformMatrix4fv (ret_mMvpLocation ret) 1 GL_FALSE
           ((S2D_GL_orthoMatrix s)[0 := flt 2 / flt vw, 5 := (- flt 2) / flt vh]),
         glUseProgram (texShaderProgram s),
         glGetUniformLocation (texShaderProgram s) ''u_mvpMatrix'' (ret_texmMvpLocation ret),
         glUniformMatrix4fv (ret_texmMvpLocation ret) 1 GL_FALSE
           ((S2D_GL_orthoMatrix s)[0 := flt 2 / flt vw, 5 := (- flt 2) / flt vh])]\<rparr>"
  by (simp add: gl3_set_view_def emit_def Let_def)

lemma gl3_check_linked_eq:
  "gl3_check_linked linked p s =
    (if linked = 0 then GL_FALSE else GL_TRUE,
     s\<lparr>trace := trace s @ glGetProgramiv p GL_LINK_STATUS linked #
           (if linked = 0 then [S2D_Log ''GL3 shader was not linked'' S2D_ERROR] else [])\<rparr>)"
  by (simp add: gl3_check_linked_def emit_def Let_def)

lemma gl3_init_no_flat:
  assumes "ret_shaderProgram ret = 0"
  shows "gl3_init flt ret w h s =
    (GL_FALSE,
     s\<lparr>shaderProgram := 0,
       trace := trace s @
         [glEnable GL_BLEND,
          glBlendFunc GL_SRC_ALPHA GL_ONE_MINUS_SRC_ALPHA,
          glGenVertexArrays 1 (ret_vao ret),
          glBindVertexArray (ret_vao ret),
          glGenBuffers 1 (ret_vbo ret),
          glBindBuffer GL_ARRAY_BUFFER (ret_vbo ret),
          glGenBuffers 1 (ret_ebo ret),
          glBindBuffer GL_ELEMENT_ARRAY_BUFFER (ret_ebo ret),
          S2D_GL_LoadShader GL_VERTEX_SHADER vertexSource ''GL3 Vertex'' (ret_vertexShader ret),
          S2D_GL_LoadShader GL_FRAGMENT_SHADER fragmentSource ''GL3 Fragment''
            (ret_fragmentShader ret),
          S2D_GL_LoadShader GL_FRAGMENT_SHADER texFragmentSource ''GL3 Texture Fragment''
            (ret_texFragmentShader ret),
          glCreateProgram 0,
          S2D_GL_PrintError ''Failed to create shader program'']\<rparr>)"
  using assms by (simp add: gl3_init_def Let_def emit_def)

lemma gl3_init_no_tex:
  assumes "ret_shaderProgram ret \<noteq> 0" and "ret_texShaderProgram ret = 0"
  shows "gl3_init flt ret w h s =
    (GL_FALSE,
     s\<lparr>shaderProgram := ret_shaderProgram ret,
       texShaderProgram := 0,
       trace := trace s @
         [glEnable GL_BLEND,
          glBlendFunc GL_SRC_ALPHA GL_ONE_MINUS_SRC_ALPHA,
          glGenVertexArrays 1 (ret_vao ret),
          glBindVertexArray (ret_vao ret),
          glGenBuffers 1 (ret_vbo ret),
          glBindBuffer GL_ARRAY_BUFFER (ret_vbo ret),
          glGenBuffers 1 (ret_ebo ret),
          glBindBuffer GL_ELEMENT_ARRAY_BUFFER (ret_ebo ret),
          S2D_GL_LoadShader GL_VERTEX_SHADER vertexSource ''GL3 Vertex'' (ret_vertexShader ret),
          S2D_GL_LoadShader GL_FRAGMENT_SHADER fragmentSource ''GL3 Fragment''
            (ret_fragmentShader ret),
          S2D_GL_LoadShader GL_FRAGMENT_SHADER texFragmentSource ''GL3 Texture Fragment''
            (ret_texFragmentShader ret),
          glCreateProgram (ret_shaderProgram ret),
          glAttachShader (ret_shaderProgram ret) (ret_vertexShader ret),
          glAttachShader (ret_shaderProgram ret) (ret_fragmentShader ret),
          glBindFragDataLocation (ret_shaderProgram ret) 0 ''outColor'',
          glLinkProgram (ret_shaderProgram ret),
          glGetProgramiv (ret_shaderProgram ret) GL_LINK_STATUS (ret_linked ret)] @
         (if ret_linked ret = 0 then [S2D_Log ''GL3 shader was not linked'' S2D_ERROR] else []) @
         [glGetAttribLocation (ret_shaderProgram ret) ''position'' (ret_posAttrib ret),
          glVertexAttribPointer (ret_posAttrib ret) 2 GL_FLOAT GL_FALSE 32 0,
          glEnableVertexAttribArray (ret_posAttrib ret),
          glGetAttribLocation (ret_shaderProgram ret) ''color'' (ret_colAttrib ret),
          glVertexAttribPointer (ret_colAttrib ret) 4 GL_FLOAT GL_FALSE 32 8,
          glEnableVertexAttribArray (ret_colAttrib ret),
          glCreateProgram 0,
          S2D_GL_PrintError ''Failed to create shader program'']\<rparr>)"
  using assms by (simp add: gl3_init_def gl3_check_linked_eq Let_def emit_def sizeof_GLfloat_def)

lemma gl3_init_ok:
  assumes "ret_shaderProgram ret \<noteq> 0" and "ret_texShaderProgram ret \<noteq> 0"
  shows "gl3_init flt ret w h s =
    (GL_TRUE,
     s\<lparr>shaderProgram := ret_shaderProgram ret,
       texShaderProgram := ret_texShaderProgram ret,
       S2D_GL_orthoMatrix := (S2D_GL_orthoMatrix s)[0 := flt 2 / flt w, 5 := (- flt 2) / flt h],
       trace := trace s @
         [glEnable GL_BLEND,
          glBlendFunc GL_SRC_ALPHA GL_ONE_MINUS_SRC_ALPHA,
          glGenVertexArrays 1 (ret_vao ret),
          glBindVertexArray (ret_vao ret),
          glGenBuffers 1 (ret_vbo ret),
          glBindBuffer GL_ARRAY_BUFFER (ret_vbo ret),
          glGenBuffers 1 (ret_ebo ret),
          glBindBuffer GL_ELEMENT_ARRAY_BUFFER (ret_ebo ret),
          S2D_GL_LoadShader GL_VERTEX_SHADER vertexSource ''GL3 Vertex'' (ret_vertexShader ret),
          S2D_GL_LoadShader GL_FRAGMENT_SHADER fragmentSource ''GL3 Fragment''
            (ret_fragmentShader ret),
          S2D_GL_LoadShader GL_FRAGMENT_SHADER texFragmentSource ''GL3 Texture Fragment''
            (ret_texFragmentShader ret),
          glCreateProgram (ret_shaderProgram ret),
          glAttachShader (ret_shaderProgram ret) (ret_vertexShader ret),
          glAttachShader (ret_shaderProgram ret) (ret_fragmentShader ret),
          glBindFragDataLocation (ret_shaderProgram ret) 0 ''outColor'',
          glLinkProgram (ret_shaderProgram ret),
          glGetProgramiv (ret_shaderProgram ret) GL_LINK_STATUS (ret_linked ret)] @
         (if ret_linked ret = 0 then [S2D_Log ''GL3 shader was not linked'' S2D_ERROR] else []) @
         [glGetAttribLocation (ret_shaderProgram ret) ''position'' (ret_posAttrib ret),
          glVertexAttribPointer (ret_posAttrib ret) 2 GL_FLOAT GL_FALSE 32 0,
          glEnableVertexAttribArray (ret_posAttrib ret),
          glGetAttribLocation (ret_shaderProgram ret) ''color'' (ret_colAttrib ret),
          glVertexAttribPointer (ret_colAttrib ret) 4 GL_FLOAT GL_FALSE 32 8,
          glEnableVertexAttribArray (ret_colAttrib ret),
          glCreateProgram (ret_texShaderProgram ret),
          glAttachShader (ret_texShaderProgram ret) (ret_vertexShader ret),
          glAttachShader (ret_texShaderProgram ret) (ret_texFragmentShader ret),
          glBindFragDataLocation (ret_texShaderProgram ret) 0 ''outColor'',
          glLinkProgram (ret_texShaderProgram ret),
          glGetProgramiv (ret_texShaderProgram ret) GL_LINK_STATUS (ret_texLinked ret)] @
         (if ret_texLinked ret = 0 then [S2D_Log ''GL3 shader was not linked'' S2D_ERROR] else []) @
         [glGetAttribLocation (ret_texShaderProgram ret) ''position'' (ret_texPosAttrib ret),
          glVertexAttribPointer (ret_texPosAttrib ret) 2 GL_FLOAT GL_FALSE 32 0,
          glEnableVertexAttribArray (ret_texPosAttrib ret),
          glGetAttribLocation (ret_texShaderProgram ret) ''color'' (ret_texColAttrib ret),
          glVertexAttribPointer (ret_texColAttrib ret) 4 GL_FLOAT GL_FALSE 32 8,
          glEnableVertexAttribArray (ret_texColAttrib ret),
          glGetAttribLocation (ret_texShaderProgram ret) ''texcoord'' (ret_texAttrib ret),
          glVertexAttribPointer (ret_texAttrib ret) 2 GL_FLOAT GL_FALSE 32 24,
          glEnableVertexAttribArray (ret_texAttrib ret),
          glViewport 0 0 w h,
          glUseProgram (ret_shaderProgram ret),
          glGetUniformLocation (ret_shaderProgram ret) ''u_mvpMatrix''
            (ret_mMvpLocation (ret_set_view ret)),
          glUniformMatrix4fv (ret_mMvpLocation (ret_set_view ret)) 1 GL_FALSE
            ((S2D_GL_orthoMatrix s)[0 := flt 2 / flt w, 5 := (- flt 2) / flt h]),
          glUseProgram (ret_texShaderProgram ret),
          glGetUniformLocation (ret_texShaderProgram ret) ''u_mvpMatrix''
            (ret_texmMvpLocation (ret_set_view ret)),
          glUniformMatrix4fv (ret_texmMvpLocation (ret_set_view ret)) 1 GL_FALSE
            ((S2D_GL_orthoMatrix s)[0 := flt 2 / flt w, 5 := (- flt 2) / flt h]),
          glDeleteShader (ret_vertexShader ret),
          glDeleteShader (ret_fragmentShader ret),
          glDeleteShader (ret_texFragmentShader ret)]\<rparr>)"
  using assms
  by (simp add: gl3_init_def gl3_check_linked_eq gl3_set_view_eq Let_def emit_def sizeof_GLfloat_def)

lemma gl3_draw_triangle_eq:
  "gl3_draw_triangle x1 y1 c1r c1g c1b c1a x2 y2 c2r c2g c2b c2a x3 y3 c3r c3g c3b c3a s =
     s\<lparr>trace := trace s @
        [glUseProgram (shaderProgram s),
         glBufferData GL_ARRAY_BUFFER 96
           (Floats [x1, y1, c1r, c1g, c1b, c1a, 0, 0,
                    x2, y2, c2r, c2g, c2b, c2a, 0, 0,
                    x3, y3, c3r, c3g, c3b, c3a, 0, 0]) GL_STATIC_DRAW,
         glDrawArrays GL_TRIANGLES 0 3]\<rparr>"
  by (simp add: gl3_draw_triangle_def emit_def Let_def sizeof_GLfloat_def)

lemma gl3_draw_texture_eq:
  "gl3_draw_texture flt x y w h r g b a texture_id s =
     s\<lparr>trace := trace s @
        [glUseProgram (texShaderProgram s),
         glBindTexture GL_TEXTURE_2D texture_id,
         glBufferData GL_ARRAY_BUFFER 128
           (Floats [flt x,       flt y,       r, g, b, a, 0, 0,
                    flt (x + w), flt y,       r, g, b, a, 1, 0,
                    flt (x + w), flt (y + h), r, g, b, a, 1, 1,
                    flt x,       flt (y + h), r, g, b, a, 0, 1]) GL_STATIC_DRAW,
         glBufferData GL_ELEMENT_ARRAY_BUFFER 24 (UInts [0, 1, 2, 2, 3, 0]) GL_STATIC_DRAW,
         glDrawElements GL_TRIANGLES 6 GL_UNSIGNED_INT 0]\<rparr>"
  by (simp add: gl3_draw_texture_def emit_def Let_def sizeof_GLfloat_def sizeof_GLuint_def
      elements_def)

lemma emitted_update [simp]:
  "emitted s (s\<lparr>trace := trace s @ es\<rparr>) = es"
  "emitted s (s\<lparr>S2D_GL_orthoMatrix := M, trace := trace s @ es\<rparr>) = es"
  "emitted s (s\<lparr>shaderProgram := p, trace := trace s @ es\<rparr>) = es"
  "emitted s (s\<lparr>shaderProgram := p, texShaderProgram := q, trace := trace s @ es\<rparr>) = es"
  "emitted s (s\<lparr>shaderProgram := p, texShaderProgram := q, S2D_GL_orthoMatrix := M,
                trace := trace s @ es\<rparr>) = es"
  by (simp_all add: emitted_def)


lemma gl3_init_cases:
  obtains (no_flat) "ret_shaderProgram ret = 0"
  | (no_tex) "ret_shaderProgram ret \<noteq> 0" "ret_texShaderProgram ret = 0"
  | (ok) "ret_shaderProgram ret \<noteq> 0" "ret_texShaderProgram ret \<noteq> 0"
  by blast

lemma GL_TRUE_neq_FALSE [simp]:
  "(GL_TRUE :: cint) \<noteq> GL_FALSE" "(GL_FALSE :: cint) \<noteq> GL_TRUE"
  by (simp_all add: GL_TRUE_def GL_FALSE_def)

section \<open>The projection matrix\<close>

text \<open>
  Claim C1. After a call to \<^verbatim>\<open>gl3_set_view\<close> the entry 0 of the projection matrix is
  \<^verbatim>\<open>2.0f / (GLfloat)s2d_viewport_width\<close>, the entry 5 is
  \<^verbatim>\<open>-2.0f / (GLfloat)s2d_viewport_height\<close>, and the whole matrix, as it stands after
  the two writes, is uploaded to the uniform \<^verbatim>\<open>u_mvpMatrix\<close> of the flat program and of
  the textured program: for each, the program is made current, the location of the
  uniform is asked for, and the 16 floats are sent to the location the driver
  returned. This holds for every viewport size, the positive ones in particular.
\<close>

theorem gl3_set_view_projection:
  assumes "length (S2D_GL_orthoMatrix s) = 16"
      and "s' = gl3_set_view flt ret window_width window_height viewport_width viewport_height s"
  shows "S2D_GL_orthoMatrix s' ! 0 = flt 2 / flt viewport_width \<and>
         S2D_GL_orthoMatrix s' ! 5 = (- flt 2) / flt viewport_height \<and>
         length (S2D_GL_orthoMatrix s') = 16 \<and>
         emitted s s' =
           [glViewport 0 0 window_width window_height,
            glUseProgram (shaderProgram s),
            glGetUniformLocation (shaderProgram s) ''u_mvpMatrix'' (ret_mMvpLocation ret),
            glUniformMatrix4fv (ret_mMvpLocation ret) 1 GL_FALSE (S2D_GL_orthoMatrix s'),
            glUseProgram (texShaderProgram s),
            glGetUniformLocation (texShaderProgram s) ''u_mvpMatrix'' (ret_texmMvpLocation ret),
            glUniformMatrix4fv (ret_texmMvpLocation ret) 1 GL_FALSE (S2D_GL_orthoMatrix s')]"
  using assms by (simp add: gl3_set_view_eq)


text \<open>
  With exact arithmetic, a window of 1600 by 1200 and a viewport of 800 by 600 give the
  scale terms 1/400 and -1/300.
\<close>

theorem gl3_set_view_projection_witness:
  "length (S2D_GL_orthoMatrix ready_state) = 16 \<and>
   S2D_GL_orthoMatrix
     (gl3_set_view real_of_cint \<lparr>ret_mMvpLocation = 0, ret_texmMvpLocation = 0\<rparr>
        1600 1200 800 600 ready_state) =
     [1 / 400, 0, 0, 0,  0, - 1 / 300, 0, 0,  0, 0, 0, 0,  -1, 1, -1, 1] \<and>
   emitted ready_state
     (gl3_set_view real_of_cint \<lparr>ret_mMvpLocation = 0, ret_texmMvpLocation = 0\<rparr>
        1600 1200 800 600 ready_state) =
     [glViewport 0 0 1600 1200,
      glUseProgram 3,
      glGetUniformLocation 3 ''u_mvpMatrix'' 0,
      glUniformMatrix4fv 0 1 GL_FALSE
        [1 / 400, 0, 0, 0,  0, - 1 / 300, 0, 0,  0, 0, 0, 0,  -1, 1, -1, 1],
      glUseProgram 6,
      glGetUniformLocation 6 ''u_mvpMatrix'' 0,
      glUniformMatrix4fv 0 1 GL_FALSE
        [1 / 400, 0, 0, 0,  0, - 1 / 300, 0, 0,  0, 0, 0, 0,  -1, 1, -1, 1]]"
  using gl3_set_view_projection
    [where s = ready_state and flt = real_of_cint
       and ret = "\<lparr>ret_mMvpLocation = 0, ret_texmMvpLocation = 0\<rparr>"
       and window_width = 1600 and window_height = 1200
       and viewport_width = 800 and viewport_height = 600, OF _ refl]
  by (simp add: ready_state_def real_of_cint_def gl3_set_view_eq)

text \<open>
  Claim C7. \<^verbatim>\<open>gl3_set_view\<close> writes the entries 0 and 5 of the projection matrix and
  no other: the matrix keeps its length and every entry at another index keeps its
  value. No other function of the file writes the matrix: \<^verbatim>\<open>gl3_check_linked\<close>,
  \<^verbatim>\<open>gl3_draw_triangle\<close>, \<^verbatim>\<open>gl3_draw_texture\<close>, \<^verbatim>\<open>gl3_draw_image\<close> and
  \<^verbatim>\<open>gl3_draw_text\<close> leave it as it is, and \<^verbatim>\<open>gl3_init\<close> changes it only through
  its call of \<^verbatim>\<open>gl3_set_view\<close>: when it returns \<^verbatim>\<open>GL_TRUE\<close> the matrix is the one
  that call leaves, and when it returns \<^verbatim>\<open>GL_FALSE\<close> the matrix is untouched.
\<close>

theorem gl3_set_view_frame:
  "S2D_GL_orthoMatrix (gl3_set_view flt ret window_width window_height vw vh s) =
     (S2D_GL_orthoMatrix s)[0 := flt 2 / flt vw, 5 := (- flt 2) / flt vh] \<and>
   length (S2D_GL_orthoMatrix (gl3_set_view flt ret window_width window_height vw vh s)) =
     length (S2D_GL_orthoMatrix s) \<and>
   (\<forall>i. i \<noteq> 0 \<longrightarrow> i \<noteq> 5 \<longrightarrow>
      S2D_GL_orthoMatrix (gl3_set_view flt ret window_width window_height vw vh s) ! i =
      S2D_GL_orthoMatrix s ! i) \<and>
   S2D_GL_orthoMatrix (snd (gl3_check_linked linked program s)) = S2D_GL_orthoMatrix s \<and>
   S2D_GL_orthoMatrix
     (gl3_draw_triangle x1 y1 c1r c1g c1b c1a x2 y2 c2r c2g c2b c2a x3 y3 c3r c3g c3b c3a s) =
     S2D_GL_orthoMatrix s \<and>
   S2D_GL_orthoMatrix (gl3_draw_texture flt x y w h r g b a texture_id s) =
     S2D_GL_orthoMatrix s \<and>
   S2D_GL_orthoMatrix (gl3_draw_image flt img s) = S2D_GL_orthoMatrix s \<and>
   S2D_GL_orthoMatrix (gl3_draw_text flt txt s) = S2D_GL_orthoMatrix s \<and>
   S2D_GL_orthoMatrix (snd (gl3_init flt iret width height s)) =
     (if fst (gl3_init flt iret width height s) = GL_TRUE
      then S2D_GL_orthoMatrix
             (gl3_set_view flt (ret_set_view iret) width height width height s)
      else S2D_GL_orthoMatrix s)"
proof -
  have init: "S2D_GL_orthoMatrix (snd (gl3_init flt iret width height s)) =
     (if fst (gl3_init flt iret width height s) = GL_TRUE
      then S2D_GL_orthoMatrix
             (gl3_set_view flt (ret_set_view iret) width height width height s)
      else S2D_GL_orthoMatrix s)"
  proof (cases "ret_shaderProgram iret = 0")
    case True
    then show ?thesis
      by (simp add: gl3_init_no_flat GL_FALSE_def GL_TRUE_def)
  next
    case flat: False
    show ?thesis
    proof (cases "ret_texShaderProgram iret = 0")
      case True
      with flat show ?thesis
        by (simp add: gl3_init_no_tex GL_FALSE_def GL_TRUE_def)
    next
      case False
      with flat show ?thesis
        by (simp add: gl3_init_ok gl3_set_view_eq)
    qed
  qed
  show ?thesis
    unfolding gl3_draw_image_def gl3_draw_text_def
    by (simp add: gl3_set_view_eq gl3_check_linked_eq gl3_draw_triangle_eq gl3_draw_texture_eq
        init)
qed

text \<open>Entry 12 of the matrix is -1 before and after a call; entry 0 changes from 0 to 1/400.\<close>

theorem gl3_set_view_frame_witness:
  "S2D_GL_orthoMatrix
     (gl3_set_view real_of_cint \<lparr>ret_mMvpLocation = 0, ret_texmMvpLocation = 0\<rparr>
        1600 1200 800 600 ready_state) ! 12 = S2D_GL_orthoMatrix ready_state ! 12 \<and>
   (12::nat) \<noteq> 0 \<and> (12::nat) \<noteq> 5 \<and>
   S2D_GL_orthoMatrix ready_state ! 12 = - 1 \<and>
   S2D_GL_orthoMatrix
     (gl3_set_view real_of_cint \<lparr>ret_mMvpLocation = 0, ret_texmMvpLocation = 0\<rparr>
        1600 1200 800 600 ready_state) ! 0 = 1 / 400 \<and>
   S2D_GL_orthoMatrix ready_state ! 0 = 0"
  using gl3_set_view_frame
    [where s = ready_state and flt = real_of_cint
       and ret = "\<lparr>ret_mMvpLocation = 0, ret_texmMvpLocation = 0\<rparr>"
       and window_width = 1600 and window_height = 1200 and vw = 800 and vh = 600]
  by (simp add: ready_state_def real_of_cint_def gl3_set_view_eq)

text \<open>
  Claim C8. After two consecutive calls of \<^verbatim>\<open>gl3_set_view\<close> the projection matrix is
  the one the second call alone determines: the matrix before the first call with the
  entries 0 and 5 computed from the second call's viewport. The parameters of the first
  call do not occur in it, whether or not the two sizes differ.
\<close>

theorem gl3_set_view_last_write_wins:
  "S2D_GL_orthoMatrix
     (gl3_set_view flt ret2 ww2 wh2 vw2 vh2 (gl3_set_view flt ret1 ww1 wh1 vw1 vh1 s)) =
     (S2D_GL_orthoMatrix s)[0 := flt 2 / flt vw2, 5 := (- flt 2) / flt vh2] \<and>
   S2D_GL_orthoMatrix
     (gl3_set_view flt ret2 ww2 wh2 vw2 vh2 (gl3_set_view flt ret1 ww1 wh1 vw1 vh1 s)) =
     S2D_GL_orthoMatrix (gl3_set_view flt ret2 ww2 wh2 vw2 vh2 s)"
proof -
  have "xs[0 := a, 5 := b, 0 := c, 5 := d] = xs[0 := c, 5 := d]" for xs :: "'a list" and a b c d
  proof -
    have "xs[0 := a, 5 := b, 0 := c] = xs[0 := a, 0 := c, 5 := b]"
      by (rule list_update_swap) simp
    then show ?thesis
      by (simp add: list_update_swap [of 5 0])
  qed
  then show ?thesis
    by (simp add: gl3_set_view_eq)
qed

section \<open>Drawing\<close>

text \<open>
  Claim C4. For every input \<^verbatim>\<open>gl3_draw_triangle\<close> makes three calls: it makes the flat
  program current, hands \<^verbatim>\<open>glBufferData\<close> with \<^verbatim>\<open>GL_STATIC_DRAW\<close> an array of
  3 vertices of 8 floats each, and draws with \<^verbatim>\<open>glDrawArrays\<close>, which takes no
  indices, the 3 vertices starting at 0 as \<^verbatim>\<open>GL_TRIANGLES\<close>. The texture coordinate
  of each of the three vertices is (0, 0); positions and colours are the arguments.
\<close>

theorem gl3_draw_triangle_calls:
  "\<exists>vertices.
     emitted s
       (gl3_draw_triangle x1 y1 c1r c1g c1b c1a x2 y2 c2r c2g c2b c2a x3 y3 c3r c3g c3b c3a s) =
       [glUseProgram (shaderProgram s),
        glBufferData GL_ARRAY_BUFFER (3 * 8 * sizeof_GLfloat) (Floats vertices) GL_STATIC_DRAW,
        glDrawArrays GL_TRIANGLES 0 3] \<and>
     length vertices = 3 * 8 \<and>
     map (vertex_texcoord vertices) [0, 1, 2] = [(0, 0), (0, 0), (0, 0)] \<and>
     map (vertex_position vertices) [0, 1, 2] = [(x1, y1), (x2, y2), (x3, y3)] \<and>
     map (vertex_color vertices) [0, 1, 2] =
       [(c1r, c1g, c1b, c1a), (c2r, c2g, c2b, c2a), (c3r, c3g, c3b, c3a)]"
  by (simp add: gl3_draw_triangle_eq sizeof_GLfloat_def vertex_texcoord_def
      vertex_position_def vertex_color_def)

text \<open>
  Claim C3. For x = 10, y = 20, w = 30, h = 40, the tint (1, 1, 1, 1) and a texture T,
  \<^verbatim>\<open>gl3_draw_texture\<close> uploads exactly four vertices, at (10, 20), (40, 20), (40, 60)
  and (10, 60), with the texture coordinates (0, 0), (1, 0), (1, 1) and (0, 1), uploads
  the fixed index array 0, 1, 2, 2, 3, 0, and issues one \<^verbatim>\<open>glDrawElements\<close> of 6
  indices.
\<close>

theorem gl3_draw_texture_example:
  "\<exists>vertices.
     emitted s (gl3_draw_texture flt 10 20 30 40 1 1 1 1 T s) =
       [glUseProgram (texShaderProgram s),
        glBindTexture GL_TEXTURE_2D T,
        glBufferData GL_ARRAY_BUFFER (4 * 8 * sizeof_GLfloat) (Floats vertices) GL_STATIC_DRAW,
        glBufferData GL_ELEMENT_ARRAY_BUFFER (6 * sizeof_GLuint) (UInts [0, 1, 2, 2, 3, 0])
          GL_STATIC_DRAW,
        glDrawElements GL_TRIANGLES 6 GL_UNSIGNED_INT 0] \<and>
     length vertices = 4 * 8 \<and>
     map (vertex_position vertices) [0, 1, 2, 3] =
       [(flt 10, flt 20), (flt 40, flt 20), (flt 40, flt 60), (flt 10, flt 60)] \<and>
     map (vertex_texcoord vertices) [0, 1, 2, 3] = [(0, 0), (1, 0), (1, 1), (0, 1)] \<and>
     map (vertex_color vertices) [0, 1, 2, 3] =
       [(1, 1, 1, 1), (1, 1, 1, 1), (1, 1, 1, 1), (1, 1, 1, 1)] \<and>
     elements = [0, 1, 2, 2, 3, 0]"
  by (simp add: gl3_draw_texture_eq sizeof_GLfloat_def sizeof_GLuint_def vertex_texcoord_def
      vertex_position_def vertex_color_def elements_def)

text \<open>
  Claim C9. \<^verbatim>\<open>gl3_draw_image\<close> and \<^verbatim>\<open>gl3_draw_text\<close> pass x, y, w, h and the
  texture handle of their argument unchanged to \<^verbatim>\<open>gl3_draw_texture\<close>. The image is
  drawn with the tint (1, 1, 1, 1) whatever the fields of the \<^verbatim>\<open>Image\<close> are; the text
  is drawn with its own colour: in the uploaded array the colour of each of the four
  vertices is that tint.
\<close>

theorem gl3_draw_image_text_tint:
  "gl3_draw_image flt img s =
     gl3_draw_texture flt (img_x img) (img_y img) (img_w img) (img_h img) 1 1 1 1
       (img_texture_id img) s \<and>
   gl3_draw_text flt txt s =
     gl3_draw_texture flt (txt_x txt) (txt_y txt) (txt_w txt) (txt_h txt)
       (color_r (txt_color txt)) (color_g (txt_color txt))
       (color_b (txt_color txt)) (color_a (txt_color txt)) (txt_texture_id txt) s \<and>
   (\<exists>vertices.
      emitted s (gl3_draw_image flt img s) =
        [glUseProgram (texShaderProgram s),
         glBindTexture GL_TEXTURE_2D (img_texture_id img),
         glBufferData GL_ARRAY_BUFFER 128 (Floats vertices) GL_STATIC_DRAW,
         glBufferData GL_ELEMENT_ARRAY_BUFFER 24 (UInts elements) GL_STATIC_DRAW,
         glDrawElements GL_TRIANGLES 6 GL_UNSIGNED_INT 0] \<and>
      map (vertex_color vertices) [0, 1, 2, 3] =
        [(1, 1, 1, 1), (1, 1, 1, 1), (1, 1, 1, 1), (1, 1, 1, 1)] \<and>
      map (vertex_position vertices) [0, 1, 2, 3] =
        [(flt (img_x img), flt (img_y img)),
         (flt (img_x img + img_w img), flt (img_y img)),
         (flt (img_x img + img_w img), flt (img_y img + img_h img)),
         (flt (img_x img), flt (img_y img + img_h img))]) \<and>
   (\<exists>vertices.
      emitted s (gl3_draw_text flt txt s) =
        [glUseProgram (texShaderProgram s),
         glBindTexture GL_TEXTURE_2D (txt_texture_id txt),
         glBufferData GL_ARRAY_BUFFER 128 (Floats vertices) GL_STATIC_DRAW,
         glBufferData GL_ELEMENT_ARRAY_BUFFER 24 (UInts elements) GL_STATIC_DRAW,
         glDrawElements GL_TRIANGLES 6 GL_UNSIGNED_INT 0] \<and>
      map (vertex_color vertices) [0, 1, 2, 3] =
        replicate 4 (color_r (txt_color txt), color_g (txt_color txt),
                     color_b (txt_color txt), color_a (txt_color txt)) \<and>
      map (vertex_position vertices) [0, 1, 2, 3] =
        [(flt (txt_x txt), flt (txt_y txt)),
         (flt (txt_x txt + txt_w txt), flt (txt_y txt)),
         (flt (txt_x txt + txt_w txt), flt (txt_y txt + txt_h txt)),
         (flt (txt_x txt), flt (txt_y txt + txt_h txt))])"
  unfolding gl3_draw_image_def gl3_draw_text_def
  by (simp add: gl3_draw_texture_eq vertex_position_def vertex_color_def elements_def
      numeral_eq_Suc)

section \<open>The active program\<close>




section \<open>Failures during initialisation\<close>

text \<open>
  Claim C6. If the first \<^verbatim>\<open>glCreateProgram\<close> call of \<^verbatim>\<open>gl3_init\<close> returns 0, or
  the first returns a handle and the second returns 0, the function returns
  \<^verbatim>\<open>GL_FALSE\<close>, and the last thing it does after the failed call is to report the
  error through \<^verbatim>\<open>S2D_GL_PrintError\<close>. Nothing is rolled back: blending was enabled
  and the vertex array and the two buffers were generated and bound, and no call
  follows the report; not even the shaders are deleted. The file has no call that
  disables blending or deletes a buffer, a vertex array or a program. The projection
  matrix is as it was.
\<close>

theorem gl3_init_create_failure:
  assumes "ret_shaderProgram ret = 0 \<or> ret_texShaderProgram ret = 0"
  shows "fst (gl3_init flt ret width height s) = GL_FALSE \<and>
    suffix [glCreateProgram 0, S2D_GL_PrintError ''Failed to create shader program'']
      (emitted s (snd (gl3_init flt ret width height s))) \<and>
    prefix
      [glEnable GL_BLEND,
       glBlendFunc GL_SRC_ALPHA GL_ONE_MINUS_SRC_ALPHA,
       glGenVertexArrays 1 (ret_vao ret),
       glBindVertexArray (ret_vao ret),
       glGenBuffers 1 (ret_vbo ret),
       glBindBuffer GL_ARRAY_BUFFER (ret_vbo ret),
       glGenBuffers 1 (ret_ebo ret),
       glBindBuffer GL_ELEMENT_ARRAY_BUFFER (ret_ebo ret)]
      (emitted s (snd (gl3_init flt ret width height s))) \<and>
    (\<forall>shader. glDeleteShader shader \<notin> set (emitted s (snd (gl3_init flt ret width height s)))) \<and>
    S2D_GL_orthoMatrix (snd (gl3_init flt ret width height s)) = S2D_GL_orthoMatrix s"
proof (cases rule: gl3_init_cases [of ret])
  case no_flat
  then show ?thesis
    by (simp add: gl3_init_no_flat suffix_to_prefix)
next
  case no_tex
  then show ?thesis
    by (simp add: gl3_init_no_tex suffix_to_prefix)
next
  case ok
  with assms show ?thesis
    by simp
qed

text \<open>
  The first \<^verbatim>\<open>glCreateProgram\<close> returns 0, and then the first returns 3 and the second
  0: both runs return \<^verbatim>\<open>GL_FALSE\<close> and the error report comes last; in the second
  the flat program, already created and linked, is left as it is.
\<close>

theorem gl3_init_create_failure_witness:
  "(ret_shaderProgram (good_ret\<lparr>ret_shaderProgram := 0\<rparr>) = 0 \<or>
    ret_texShaderProgram (good_ret\<lparr>ret_shaderProgram := 0\<rparr>) = 0) \<and>
   fst (gl3_init real_of_cint (good_ret\<lparr>ret_shaderProgram := 0\<rparr>) 800 600 boot_state) =
     GL_FALSE \<and>
   last (emitted boot_state
           (snd (gl3_init real_of_cint (good_ret\<lparr>ret_shaderProgram := 0\<rparr>) 800 600
                   boot_state))) =
     S2D_GL_PrintError ''Failed to create shader program'' \<and>
   (ret_shaderProgram (good_ret\<lparr>ret_texShaderProgram := 0\<rparr>) = 0 \<or>
    ret_texShaderProgram (good_ret\<lparr>ret_texShaderProgram := 0\<rparr>) = 0) \<and>
   ret_shaderProgram (good_ret\<lparr>ret_texShaderProgram := 0\<rparr>) = 3 \<and>
   fst (gl3_init real_of_cint (good_ret\<lparr>ret_texShaderProgram := 0\<rparr>) 800 600 boot_state) =
     GL_FALSE \<and>
   last (emitted boot_state
           (snd (gl3_init real_of_cint (good_ret\<lparr>ret_texShaderProgram := 0\<rparr>) 800 600
                   boot_state))) =
     S2D_GL_PrintError ''Failed to create shader program'' \<and>
   glLinkProgram 3 \<in>
     set (emitted boot_state
            (snd (gl3_init real_of_cint (good_ret\<lparr>ret_texShaderProgram := 0\<rparr>) 800 600
                    boot_state)))"
proof -
  have h1: "ret_shaderProgram (good_ret\<lparr>ret_shaderProgram := 0\<rparr>) = 0 \<or>
      ret_texShaderProgram (good_ret\<lparr>ret_shaderProgram := 0\<rparr>) = 0"
    and h2: "ret_shaderProgram (good_ret\<lparr>ret_texShaderProgram := 0\<rparr>) = 0 \<or>
      ret_texShaderProgram (good_ret\<lparr>ret_texShaderProgram := 0\<rparr>) = 0"
    by simp_all
  from gl3_init_create_failure [OF h1, where flt = real_of_cint and s = boot_state]
    gl3_init_create_failure [OF h2, where flt = real_of_cint and s = boot_state]
  show ?thesis
    by (simp add: gl3_init_no_flat gl3_init_no_tex good_ret_def)
qed

text \<open>
  Claim C5, as amended. A shader that fails to compile does not abort the
  initialisation: \<^verbatim>\<open>gl3_init\<close> never tests the handles \<^verbatim>\<open>S2D_GL_LoadShader\<close> returns.
  Its result is \<^verbatim>\<open>GL_FALSE\<close> exactly when a \<^verbatim>\<open>glCreateProgram\<close> call returns 0 (the
  second call is made only if the first succeeded) and \<^verbatim>\<open>GL_TRUE\<close> otherwise, and it
  is the same whatever the three shader handles are.
\<close>

theorem gl3_init_result:
  "fst (gl3_init flt ret width height s) =
     (if ret_shaderProgram ret = 0 \<or> ret_texShaderProgram ret = 0 then GL_FALSE else GL_TRUE) \<and>
   fst (gl3_init flt
          (ret\<lparr>ret_vertexShader := vs, ret_fragmentShader := fs, ret_texFragmentShader := tfs\<rparr>)
          width height s) =
     fst (gl3_init flt ret width height s)"
proof -
  have *: "fst (gl3_init flt r width height s) =
     (if ret_shaderProgram r = 0 \<or> ret_texShaderProgram r = 0 then GL_FALSE else GL_TRUE)"
    for r
    by (cases rule: gl3_init_cases [of r])
      (simp_all add: gl3_init_no_flat gl3_init_no_tex gl3_init_ok)
  show ?thesis
    by (simp add: *)
qed

text \<open>
  Claim C5 as stated fails: when \<^verbatim>\<open>S2D_GL_LoadShader\<close> returns the null handle 0 for
  each of the three sources, and the driver creates both programs, \<^verbatim>\<open>gl3_init\<close>
  returns \<^verbatim>\<open>GL_TRUE\<close>.
\<close>

theorem gl3_init_compile_failure_counterexample:
  "S2D_GL_LoadShader GL_VERTEX_SHADER vertexSource ''GL3 Vertex'' 0 \<in>
     set (trace (snd (gl3_init real_of_cint
       (good_ret\<lparr>ret_vertexShader := 0, ret_fragmentShader := 0, ret_texFragmentShader := 0\<rparr>)
       800 600 boot_state))) \<and>
   S2D_GL_LoadShader GL_FRAGMENT_SHADER fragmentSource ''GL3 Fragment'' 0 \<in>
     set (trace (snd (gl3_init real_of_cint
       (good_ret\<lparr>ret_vertexShader := 0, ret_fragmentShader := 0, ret_texFragmentShader := 0\<rparr>)
       800 600 boot_state))) \<and>
   S2D_GL_LoadShader GL_FRAGMENT_SHADER texFragmentSource ''GL3 Texture Fragment'' 0 \<in>
     set (trace (snd (gl3_init real_of_cint
       (good_ret\<lparr>ret_vertexShader := 0, ret_fragmentShader := 0, ret_texFragmentShader := 0\<rparr>)
       800 600 boot_state))) \<and>
   fst (gl3_init real_of_cint
       (good_ret\<lparr>ret_vertexShader := 0, ret_fragmentShader := 0, ret_texFragmentShader := 0\<rparr>)
       800 600 boot_state) = GL_TRUE \<and>
   fst (gl3_init real_of_cint
       (good_ret\<lparr>ret_vertexShader := 0, ret_fragmentShader := 0, ret_texFragmentShader := 0\<rparr>)
       800 600 boot_state) \<noteq> GL_FALSE"
  by (simp add: gl3_init_ok good_ret_def boot_state_def)

text \<open>
  Claim C2. When the link status of a program is failure, \<^verbatim>\<open>gl3_check_linked\<close> logs
  the error and returns \<^verbatim>\<open>GL_FALSE\<close>. \<^verbatim>\<open>gl3_init\<close> does not look at that result:
  its return value and the two handles it stores are the same whatever the two link
  statuses are. When both programs were created, it returns \<^verbatim>\<open>GL_TRUE\<close> and keeps the
  two non-null handles; the link statuses were asked for, an error was logged exactly
  if one of them was failure, and the run ends all the same with the view set-up,
  which makes each of the two programs current and uploads the matrix to it, and the
  deletion of the shaders.
\<close>

theorem gl3_link_failure_not_fatal:
  "gl3_check_linked 0 program s =
     (GL_FALSE,
      s\<lparr>trace := trace s @
         [glGetProgramiv program GL_LINK_STATUS 0,
          S2D_Log ''GL3 shader was not linked'' S2D_ERROR]\<rparr>) \<and>
   fst (gl3_init flt (ret\<lparr>ret_linked := l1, ret_texLinked := l2\<rparr>) width height s) =
     fst (gl3_init flt ret width height s) \<and>
   shaderProgram (snd (gl3_init flt (ret\<lparr>ret_linked := l1, ret_texLinked := l2\<rparr>) width height s)) =
     shaderProgram (snd (gl3_init flt ret width height s)) \<and>
   texShaderProgram
       (snd (gl3_init flt (ret\<lparr>ret_linked := l1, ret_texLinked := l2\<rparr>) width height s)) =
     texShaderProgram (snd (gl3_init flt ret width height s)) \<and>
   (ret_shaderProgram ret \<noteq> 0 \<and> ret_texShaderProgram ret \<noteq> 0 \<longrightarrow>
      fst (gl3_init flt ret width height s) = GL_TRUE \<and>
      shaderProgram (snd (gl3_init flt ret width height s)) = ret_shaderProgram ret \<and>
      texShaderProgram (snd (gl3_init flt ret width height s)) = ret_texShaderProgram ret \<and>
      glGetProgramiv (ret_shaderProgram ret) GL_LINK_STATUS (ret_linked ret) \<in>
        set (emitted s (snd (gl3_init flt ret width height s))) \<and>
      glGetProgramiv (ret_texShaderProgram ret) GL_LINK_STATUS (ret_texLinked ret) \<in>
        set (emitted s (snd (gl3_init flt ret width height s))) \<and>
      (S2D_Log ''GL3 shader was not linked'' S2D_ERROR \<in>
         set (emitted s (snd (gl3_init flt ret width height s))) \<longleftrightarrow>
       ret_linked ret = 0 \<or> ret_texLinked ret = 0) \<and>
      suffix
        [glViewport 0 0 width height,
         glUseProgram (ret_shaderProgram ret),
         glGetUniformLocation (ret_shaderProgram ret) ''u_mvpMatrix''
           (ret_mMvpLocation (ret_set_view ret)),
         glUniformMatrix4fv (ret_mMvpLocation (ret_set_view ret)) 1 GL_FALSE
           (S2D_GL_orthoMatrix (snd (gl3_init flt ret width height s))),
         glUseProgram (ret_texShaderProgram ret),
         glGetUniformLocation (ret_texShaderProgram ret) ''u_mvpMatrix''
           (ret_texmMvpLocation (ret_set_view ret)),
         glUniformMatrix4fv (ret_texmMvpLocation (ret_set_view ret)) 1 GL_FALSE
           (S2D_GL_orthoMatrix (snd (gl3_init flt ret width height s))),
         glDeleteShader (ret_vertexShader ret),
         glDeleteShader (ret_fragmentShader ret),
         glDeleteShader (ret_texFragmentShader ret)]
        (emitted s (snd (gl3_init flt ret width height s))))"
proof -
  have check: "gl3_check_linked 0 program s =
     (GL_FALSE,
      s\<lparr>trace := trace s @
         [glGetProgramiv program GL_LINK_STATUS 0,
          S2D_Log ''GL3 shader was not linked'' S2D_ERROR]\<rparr>)"
    by (simp add: gl3_check_linked_eq)
  have indep:
    "fst (gl3_init flt (ret\<lparr>ret_linked := l1, ret_texLinked := l2\<rparr>) width height s) =
       fst (gl3_init flt ret width height s) \<and>
     shaderProgram
         (snd (gl3_init flt (ret\<lparr>ret_linked := l1, ret_texLinked := l2\<rparr>) width height s)) =
       shaderProgram (snd (gl3_init flt ret width height s)) \<and>
     texShaderProgram
         (snd (gl3_init flt (ret\<lparr>ret_linked := l1, ret_texLinked := l2\<rparr>) width height s)) =
       texShaderProgram (snd (gl3_init flt ret width height s))"
    by (cases rule: gl3_init_cases [of ret])
      (simp_all add: gl3_init_no_flat gl3_init_no_tex gl3_init_ok)
  have used: "ret_shaderProgram ret \<noteq> 0 \<and> ret_texShaderProgram ret \<noteq> 0 \<longrightarrow>
      fst (gl3_init flt ret width height s) = GL_TRUE \<and>
      shaderProgram (snd (gl3_init flt ret width height s)) = ret_shaderProgram ret \<and>
      texShaderProgram (snd (gl3_init flt ret width height s)) = ret_texShaderProgram ret \<and>
      glGetProgramiv (ret_shaderProgram ret) GL_LINK_STATUS (ret_linked ret) \<in>
        set (emitted s (snd (gl3_init flt ret width height s))) \<and>
      glGetProgramiv (ret_texShaderProgram ret) GL_LINK_STATUS (ret_texLinked ret) \<in>
        set (emitted s (snd (gl3_init flt ret width height s))) \<and>
      (S2D_Log ''GL3 shader was not linked'' S2D_ERROR \<in>
         set (emitted s (snd (gl3_init flt ret width height s))) \<longleftrightarrow>
       ret_linked ret = 0 \<or> ret_texLinked ret = 0) \<and>
      suffix
        [glViewport 0 0 width height,
         glUseProgram (ret_shaderProgram ret),
         glGetUniformLocation (ret_shaderProgram ret) ''u_mvpMatrix''
           (ret_mMvpLocation (ret_set_view ret)),
         glUniformMatrix4fv (ret_mMvpLocation (ret_set_view ret)) 1 GL_FALSE
           (S2D_GL_orthoMatrix (snd (gl3_init flt ret width height s))),
         glUseProgram (ret_texShaderProgram ret),
         glGetUniformLocation (ret_texShaderProgram ret) ''u_mvpMatrix''
           (ret_texmMvpLocation (ret_set_view ret)),
         glUniformMatrix4fv (ret_texmMvpLocation (ret_set_view ret)) 1 GL_FALSE
           (S2D_GL_orthoMatrix (snd (gl3_init flt ret width height s))),
         glDeleteShader (ret_vertexShader ret),
         glDeleteShader (ret_fragmentShader ret),
         glDeleteShader (ret_texFragmentShader ret)]
        (emitted s (snd (gl3_init flt ret width height s)))"
    by (simp add: gl3_init_ok suffix_to_prefix)
  from check indep used show ?thesis
    by blast
qed

text \<open>Both programs fail to link: the initialisation succeeds with the handles 3 and 6.\<close>

theorem gl3_link_failure_not_fatal_witness:
  "ret_shaderProgram (good_ret\<lparr>ret_linked := 0, ret_texLinked := 0\<rparr>) \<noteq> 0 \<and>
   ret_texShaderProgram (good_ret\<lparr>ret_linked := 0, ret_texLinked := 0\<rparr>) \<noteq> 0 \<and>
   fst (gl3_init real_of_cint (good_ret\<lparr>ret_linked := 0, ret_texLinked := 0\<rparr>) 800 600
          boot_state) = GL_TRUE \<and>
   shaderProgram
     (snd (gl3_init real_of_cint (good_ret\<lparr>ret_linked := 0, ret_texLinked := 0\<rparr>) 800 600
             boot_state)) = 3 \<and>
   texShaderProgram
     (snd (gl3_init real_of_cint (good_ret\<lparr>ret_linked := 0, ret_texLinked := 0\<rparr>) 800 600
             boot_state)) = 6 \<and>
   S2D_Log ''GL3 shader was not linked'' S2D_ERROR \<in>
     set (emitted boot_state
       (snd (gl3_init real_of_cint (good_ret\<lparr>ret_linked := 0, ret_texLinked := 0\<rparr>) 800 600
               boot_state)))"
proof -
  have h: "ret_shaderProgram (good_ret\<lparr>ret_linked := 0, ret_texLinked := 0\<rparr>) \<noteq> 0 \<and>
    ret_texShaderProgram (good_ret\<lparr>ret_linked := 0, ret_texLinked := 0\<rparr>) \<noteq> 0"
    by (simp add: good_ret_def)
  from gl3_link_failure_not_fatal
    [where s = boot_state and flt = real_of_cint and width = 800 and height = 600
       and ret = "good_ret\<lparr>ret_linked := 0, ret_texLinked := 0\<rparr>"]
    h
  show ?thesis
    by (simp add: good_ret_def)
qed

end
